theory Spec2Isabelle
  imports Main
begin

section \<open>Python built-ins used by the completion generator\<close>

text \<open>
  The generator (\<^verbatim>\<open>extras/scripts/completion/generate_completion.py\<close>) is Python.
  A Python \<^verbatim>\<open>str\<close> is modelled as a \<^typ>\<open>string\<close>; the flag spellings, metavars and
  help texts it handles are ASCII. An exception is a value of \<open>py_error\<close> (its class;
  the message text is not modelled), and a function that may raise returns
  \<open>py_error + 'a\<close> with \<open>Inl\<close> for the exception.
\<close>

datatype py_error = IndexError | KeyError | ValueError | FileNotFoundError

text \<open>
  Python's class hierarchy: \<^verbatim>\<open>LookupError\<close> is the base class of \<^verbatim>\<open>IndexError\<close> and
  \<^verbatim>\<open>KeyError\<close>; \<^verbatim>\<open>ValueError\<close> and \<^verbatim>\<open>FileNotFoundError\<close> are not below it.
\<close>

fun is_LookupError :: "py_error \<Rightarrow> bool" where
  "is_LookupError IndexError = True"
| "is_LookupError KeyError = True"
| "is_LookupError ValueError = False"
| "is_LookupError FileNotFoundError = False"

definition raises_LookupError :: "py_error + 'a \<Rightarrow> bool" where
  "raises_LookupError r = (case r of Inl e \<Rightarrow> is_LookupError e | Inr _ \<Rightarrow> False)"

abbreviation squote :: char where "squote \<equiv> CHR 0x27"
abbreviation backslash :: char where "backslash \<equiv> CHR 0x5C"
abbreviation tab :: char where "tab \<equiv> CHR 0x09"
abbreviation dquote :: char where "dquote \<equiv> CHR 0x22"

text \<open>\<^verbatim>\<open>sep.join(xs)\<close>\<close>

fun str_join :: "string \<Rightarrow> string list \<Rightarrow> string" where
  "str_join sep [] = []"
| "str_join sep [x] = x"
| "str_join sep (x # y # ys) = x @ sep @ str_join sep (y # ys)"

text \<open>
  \<^verbatim>\<open>s.replace(old, new)\<close>: the occurrences of \<open>old\<close> are found from the left and do not
  overlap; an empty \<open>old\<close> matches before every character and at the end.
\<close>

fun str_replace :: "string \<Rightarrow> string \<Rightarrow> string \<Rightarrow> string" where
  "str_replace [] new s = new @ concat (map (\<lambda>c. c # new) s)"
| "str_replace (a # as) new [] = []"
| "str_replace (a # as) new (c # cs) =
     (if take (Suc (length as)) (c # cs) = a # as
      then new @ str_replace (a # as) new (drop (length as) cs)
      else c # str_replace (a # as) new cs)"

text \<open>\<^verbatim>\<open>s.lstrip(chars)\<close> and \<^verbatim>\<open>s.strip(chars)\<close>: \<open>chars\<close> is a set of characters.\<close>

definition str_lstrip :: "string \<Rightarrow> string \<Rightarrow> string" where
  "str_lstrip chars s = dropWhile (\<lambda>c. c \<in> set chars) s"

definition str_strip :: "string \<Rightarrow> string \<Rightarrow> string" where
  "str_strip chars s = rev (str_lstrip chars (rev (str_lstrip chars s)))"

text \<open>
  \<^verbatim>\<open>s.upper()\<close> on ASCII text: the letters a to z move to A to Z. Beyond ASCII,
  \<^verbatim>\<open>upper()\<close> follows the Unicode case tables and \<^verbatim>\<open>len\<close> counts code points, which
  this model of strings does not have; what is proved about upper-casing and about the
  longest alias is stated for ASCII text, \<open>ascii_text\<close>.
\<close>

definition char_upper :: "char \<Rightarrow> char" where
  "char_upper c =
     (let n = (of_char c :: nat) in if 97 \<le> n \<and> n \<le> 122 then char_of (n - 32) else c)"

definition str_upper :: "string \<Rightarrow> string" where
  "str_upper s = map char_upper s"


text \<open>
  \<^verbatim>\<open>max(xs, key=len)\<close>: the first item of greatest length (a later item replaces the
  best one only when it is strictly longer); \<^verbatim>\<open>ValueError\<close> on an empty sequence.
\<close>

fun max_by_len :: "string list \<Rightarrow> py_error + string" where
  "max_by_len [] = Inl ValueError"
| "max_by_len (x # xs) =
     Inr (foldl (\<lambda>best y. if length best < length y then y else best) x xs)"

text \<open>\<^verbatim>\<open>xs[0]\<close>: \<^verbatim>\<open>IndexError\<close> on an empty list.\<close>

fun first_item :: "'a list \<Rightarrow> py_error + 'a" where
  "first_item [] = Inl IndexError"
| "first_item (x # xs) = Inr x"

text \<open>
  Unpacking a sequence into a fixed number of names,
  \<^verbatim>\<open>a, b = xs\<close> and \<^verbatim>\<open>(a,) = xs\<close>: \<^verbatim>\<open>ValueError\<close> unless the length is the number of names.
\<close>

fun unpack2 :: "'a list \<Rightarrow> py_error + ('a \<times> 'a)" where
  "unpack2 [a, b] = Inr (a, b)"
| "unpack2 xs = Inl ValueError"

fun unpack1 :: "'a list \<Rightarrow> py_error + 'a" where
  "unpack1 [a] = Inr a"
| "unpack1 xs = Inl ValueError"

section \<open>The argument model\<close>

text \<open>
  Modelled from the spec: the classes \<^verbatim>\<open>Argument\<close> and \<^verbatim>\<open>ParserSpec\<close> of
  \<^verbatim>\<open>httpie.cli.options\<close>, which the generator imports and whose declarations are not
  among the files at hand. An argument has its ordered aliases, the flags \<open>is_flag\<close>,
  \<open>is_positional\<close> and \<open>is_hidden\<close>, its \<open>short_help\<close> and a configuration with the
  optional keys \<^verbatim>\<open>metavar\<close>, \<^verbatim>\<open>choices\<close> and \<^verbatim>\<open>lazy_choices\<close>; a specification is an
  ordered sequence of groups, a group an ordered sequence of arguments. The generator
  tests the keys of \<open>configuration\<close> with \<^verbatim>\<open>in\<close> and reads the values through the
  attributes \<open>metavar\<close> (which may be \<^verbatim>\<open>None\<close>) and \<open>choices\<close>; the record has one field
  for each attribute that is read.
\<close>

datatype py_value = PyNone | PyBool bool | PyStr string | PyList "string list"

record argument =
  aliases :: "string list"
  configuration :: "string \<rightharpoonup> py_value"
  is_flag :: bool
  is_hidden :: bool
  is_positional :: bool
  short_help :: string
  metavar :: "string option"
  choices :: "string list"

record argument_group =
  arguments :: "argument list"

record parser_spec =
  groups :: "argument_group list"

section \<open>The zsh serializer\<close>

definition escape_zsh :: "string \<Rightarrow> string" where
  "escape_zsh text = str_replace '':'' [backslash, CHR '':''] text"

text \<open>
  \<^verbatim>\<open>serialize_argument_to_zsh\<close>. The steps follow the source: the prefix or the embedded
  alias, \<^verbatim>\<open>=\<close> for an argument that takes a value, the help in brackets, the
  resolution of the metavar, the metavar segment when the metavar is truthy (neither
  \<^verbatim>\<open>None\<close> nor empty), the choices when the configuration has the key, and the quotes.
\<close>

definition serialize_argument_to_zsh :: "argument \<Rightarrow> py_error + string" where
  "serialize_argument_to_zsh argument =
     (let has_choices = (configuration argument ''choices'' \<noteq> None) in
      case (if 1 < length (aliases argument)
            then Inr (''{'' @ str_join '','' (aliases argument) @ ''}'', [])
            else (case first_item (aliases argument) of
                    Inl e \<Rightarrow> Inl e
                  | Inr a0 \<Rightarrow> Inr ([], [a0]))) of
        Inl e \<Rightarrow> Inl e
      | Inr (prefix, declaration1) \<Rightarrow>
          let declaration2 = (if \<not> is_flag argument then declaration1 @ [''='']
                              else declaration1);
              declaration3 = declaration2 @ [''['' @ short_help argument @ '']'']
          in
          (case (if configuration argument ''metavar'' \<noteq> None then Inr (metavar argument)
                else if has_choices
                then (case max_by_len (aliases argument) of
                        Inl e \<Rightarrow> Inl e
                      | Inr longest \<Rightarrow>
                          Inr (Some (str_upper (str_replace ''-'' ''_''
                                       (str_lstrip ''-'' longest)))))
                else Inr None) of
            Inl e \<Rightarrow> Inl e
          | Inr mv \<Rightarrow>
              let declaration4 =
                    (case mv of
                       None \<Rightarrow> declaration3
                     | Some m \<Rightarrow>
                         if m \<noteq> []
                         then declaration3 @ ['':'' @ escape_zsh (str_strip '' '' m) @ '':'']
                         else declaration3);
                  declaration5 =
                    (if has_choices
                     then declaration4 @ [''('' @ str_join '' '' (choices argument) @ '')'']
                     else declaration4)
              in Inr (prefix @ [squote] @ concat declaration5 @ [squote])))"

section \<open>The fish serializer\<close>

text \<open>
  \<^verbatim>\<open>serialize_argument_to_fish\<close>. The two-name unpacking is tried first; its
  \<^verbatim>\<open>ValueError\<close> is caught and the one-name unpacking is tried, whose \<^verbatim>\<open>ValueError\<close>
  leaves the function. \<^verbatim>\<open>if short_form\<close> holds for a non-empty string.
\<close>

definition serialize_argument_to_fish :: "argument \<Rightarrow> py_error + string" where
  "serialize_argument_to_fish argument =
     (let declaration0 = [''complete'', ''-c'', ''http''] in
      case (case unpack2 (aliases argument) of
              Inr (s, l) \<Rightarrow> Inr (Some s, l)
            | Inl ValueError \<Rightarrow>
                (case unpack1 (aliases argument) of
                   Inl e \<Rightarrow> Inl e
                 | Inr l \<Rightarrow> Inr (None, l))
            | Inl e \<Rightarrow> Inl e) of
        Inl e \<Rightarrow> Inl e
      | Inr (short_form, long_form) \<Rightarrow>
          let declaration1 =
                (case short_form of
                   None \<Rightarrow> declaration0
                 | Some s \<Rightarrow> if s \<noteq> [] then declaration0 @ [''-s'', s] else declaration0);
              declaration2 = declaration1 @ [''-l'', long_form];
              declaration3 =
                (if configuration argument ''choices'' \<noteq> None
                 then declaration2 @
                        [''-xa'', [dquote] @ str_join '' '' (choices argument) @ [dquote]]
                 else if configuration argument ''lazy_choices'' \<noteq> None
                 then declaration2 @ [''-x'']
                 else declaration2);
              declaration4 = declaration3 @
                [''-d'',
                 [squote] @ str_replace [squote] [backslash, squote] (short_help argument)
                   @ [squote]]
          in Inr (str_join [tab] declaration4))"

section \<open>Argument lookup\<close>

text \<open>
  \<^verbatim>\<open>find_argument_by_target_name\<close>: two nested loops with a \<^verbatim>\<open>return\<close> from the inner
  one, and \<^verbatim>\<open>raise ValueError(...)\<close> after the outer one. \<open>None\<close> from a loop function
  means that the loop ran to its end without returning.
\<close>

definition targets :: "argument \<Rightarrow> string option list" where
  "targets argument =
     (if aliases argument \<noteq> [] then map Some (aliases argument) else [metavar argument])"

fun find_in_arguments :: "argument list \<Rightarrow> string \<Rightarrow> argument option" where
  "find_in_arguments [] name = None"
| "find_in_arguments (argument # rest) name =
     (if Some name \<in> set (targets argument) then Some argument
      else find_in_arguments rest name)"

fun find_in_groups :: "argument_group list \<Rightarrow> string \<Rightarrow> argument option" where
  "find_in_groups [] name = None"
| "find_in_groups (grp # rest) name =
     (case find_in_arguments (arguments grp) name of
        Some argument \<Rightarrow> Some argument
      | None \<Rightarrow> find_in_groups rest name)"

definition find_argument_by_target_name :: "parser_spec \<Rightarrow> string \<Rightarrow> py_error + argument" where
  "find_argument_by_target_name spec name =
     (case find_in_groups (groups spec) name of
        Some argument \<Rightarrow> Inr argument
      | None \<Rightarrow> Inl ValueError)"

section \<open>Templates, rendering and the driver\<close>

text \<open>
  A path is the list of its components below \<^verbatim>\<open>EXTRAS_DIR\<close>, the directory three levels
  above the script. The file system is a map from paths to the text of the files; a
  read of a missing file raises \<^verbatim>\<open>FileNotFoundError\<close>, a write stores the text.
\<close>

type_synonym path = "string list"

type_synonym file_system = "path \<rightharpoonup> string"

definition COMPLETION_DIR :: path where
  "COMPLETION_DIR = [''completion'']"

definition TEMPLATES_DIR :: path where
  "TEMPLATES_DIR = COMPLETION_DIR @ [''templates'']"

definition COMPLETION_TEMPLATE_BASE :: path where
  "COMPLETION_TEMPLATE_BASE = TEMPLATES_DIR @ [''completion'']"

definition COMPLETION_SCRIPT_BASE :: path where
  "COMPLETION_SCRIPT_BASE = COMPLETION_DIR @ [''completion'']"

definition COMMON_HTTP_METHODS :: "string list" where
  "COMMON_HTTP_METHODS =
     [''GET'', ''POST'', ''PUT'', ''DELETE'', ''HEAD'', ''OPTIONS'', ''PATCH'', ''TRACE'',
      ''CONNECT'']"

text \<open>
  \<^verbatim>\<open>Path.with_suffix\<close> on a path whose last component has no suffix of its own, as
  \<^verbatim>\<open>completion\<close> in both bases: the suffix is appended to the last component.
\<close>

definition with_suffix :: "path \<Rightarrow> string \<Rightarrow> path" where
  "with_suffix p suffix = butlast p @ [last p @ suffix]"

definition template_file :: "string \<Rightarrow> path" where
  "template_file shell_type =
     with_suffix COMPLETION_TEMPLATE_BASE (''.'' @ shell_type @ ''.j2'')"

definition compiletion_script_file :: "string \<Rightarrow> path" where
  "compiletion_script_file shell_type =
     with_suffix COMPLETION_SCRIPT_BASE (''.'' @ shell_type)"

text \<open>
  What a template is given: a dict from names to objects, kept in insertion order. A
  Python function handed to the template (a serializer, \<^verbatim>\<open>generate_flow\<close>,
  \<^verbatim>\<open>compile_zsh\<close>, a registered helper) is a \<open>Callable\<close> with its name.
\<close>

datatype template_object =
    Arg argument
  | Args "argument list"
  | Strs "string list"
  | Callable string

type_synonym bindings = "(string \<times> template_object) list"

text \<open>\<^verbatim>\<open>BASE_FUNCTIONS\<close> after the one use of \<^verbatim>\<open>register_function\<close>.\<close>

definition BASE_FUNCTIONS :: bindings where
  "BASE_FUNCTIONS = [(''is_file_based_operator'', Callable ''is_file_based_operator'')]"

definition prepare_objects :: "parser_spec \<Rightarrow> py_error + bindings" where
  "prepare_objects spec =
     (case find_argument_by_target_name spec ''REQUEST_ITEM'' of
        Inl e \<Rightarrow> Inl e
      | Inr request_items \<Rightarrow>
          Inr (BASE_FUNCTIONS @
               [(''request_items'', Arg request_items),
                (''arguments'',
                 Args (filter (\<lambda>argument. \<not> is_hidden argument \<and> \<not> is_positional argument)
                         (concat (map arguments (groups spec))))),
                (''methods'', Strs COMMON_HTTP_METHODS),
                (''generate_flow'', Callable ''generate_flow'')]))"

definition zsh_completer :: "parser_spec \<Rightarrow> bindings" where
  "zsh_completer spec =
     [(''escape_zsh'', Callable ''escape_zsh''),
      (''serialize_argument_to_zsh'', Callable ''serialize_argument_to_zsh''),
      (''compile_zsh'', Callable ''compile_zsh'')]"

definition fish_completer :: "parser_spec \<Rightarrow> bindings" where
  "fish_completer spec =
     [(''serialize_argument_to_fish'', Callable ''serialize_argument_to_fish'')]"

text \<open>
  The template engine (jinja2) is outside the repository and is a parameter: \<open>compile\<close>
  stands for \<^verbatim>\<open>Template(text)\<close> and \<open>render\<close> for \<^verbatim>\<open>render\<close> on the compiled template
  with the globals and the extra variables. Both may raise.
\<close>

record 't engine =
  compile :: "string \<Rightarrow> py_error + 't"
  render :: "'t \<Rightarrow> bindings \<Rightarrow> bindings \<Rightarrow> py_error + string"

text \<open>
  The \<^verbatim>\<open>wrapper\<close> that \<^verbatim>\<open>use_template(shell_type)\<close> puts around a completer \<open>func\<close>: read
  and compile the template, prepare the globals, ask \<open>func\<close> for the extra variables,
  render, write the script.
\<close>

definition use_template ::
  "string \<Rightarrow> (parser_spec \<Rightarrow> bindings) \<Rightarrow> 't engine \<Rightarrow> parser_spec \<Rightarrow> file_system
     \<Rightarrow> py_error + file_system" where
  "use_template shell_type func eng spec fs =
     (case fs (template_file shell_type) of
        None \<Rightarrow> Inl FileNotFoundError
      | Some text \<Rightarrow>
          (case compile eng text of
             Inl e \<Rightarrow> Inl e
           | Inr jinja_template \<Rightarrow>
               (case prepare_objects spec of
                  Inl e \<Rightarrow> Inl e
                | Inr global_objects \<Rightarrow>
                    (case render eng jinja_template global_objects (func spec) of
                       Inl e \<Rightarrow> Inl e
                     | Inr script \<Rightarrow>
                         Inr (fs(compiletion_script_file shell_type \<mapsto> script))))))"

text \<open>\<^verbatim>\<open>COMPLETERS\<close> after the module is loaded: zsh is registered first, fish second.\<close>

definition COMPLETERS ::
  "(string \<times> ('t engine \<Rightarrow> parser_spec \<Rightarrow> file_system \<Rightarrow> py_error + file_system)) list" where
  "COMPLETERS =
     [(''zsh'', use_template ''zsh'' zsh_completer),
      (''fish'', use_template ''fish'' fish_completer)]"

text \<open>
  \<^verbatim>\<open>main\<close>: the loop over \<^verbatim>\<open>COMPLETERS.items()\<close>. The state is the file system and the
  lines printed so far; an exception ends the loop and is returned with the state
  reached.
\<close>

record run_state =
  files :: file_system
  stdout :: "string list"

fun run_completers ::
  "(string \<times> ('t engine \<Rightarrow> parser_spec \<Rightarrow> file_system \<Rightarrow> py_error + file_system)) list
     \<Rightarrow> 't engine \<Rightarrow> parser_spec \<Rightarrow> run_state \<Rightarrow> run_state \<times> py_error option" where
  "run_completers [] eng spec st = (st, None)"
| "run_completers ((shell_type, completer) # rest) eng spec st =
     (let st1 = st\<lparr>stdout := stdout st @ [''Generating '' @ shell_type @ '' completer.'']\<rparr>
      in case completer eng spec (files st1) of
           Inl e \<Rightarrow> (st1, Some e)
         | Inr fs \<Rightarrow> run_completers rest eng spec (st1\<lparr>files := fs\<rparr>))"

definition main :: "'t engine \<Rightarrow> parser_spec \<Rightarrow> file_system \<Rightarrow> run_state \<times> py_error option" where
  "main eng options fs = run_completers COMPLETERS eng options \<lparr>files = fs, stdout = []\<rparr>"

section \<open>The lookup in the words of the specification\<close>

text \<open>
  The arguments of a specification in scan order, groups in order and arguments within a
  group in order, and what it is for the targets of an argument to contain a name: the
  name is one of the aliases when there are aliases, and is the metavar otherwise.
\<close>

definition all_arguments :: "parser_spec \<Rightarrow> argument list" where
  "all_arguments spec = concat (map arguments (groups spec))"

definition has_target :: "string \<Rightarrow> argument \<Rightarrow> bool" where
  "has_target name a =
     (if aliases a \<noteq> [] then name \<in> set (aliases a) else metavar a = Some name)"

section \<open>The parts of a fish declaration\<close>

text \<open>
  The tokens that \<open>serialize_argument_to_fish\<close> puts between the program name and
  \<^verbatim>\<open>-d\<close>, read off lines 165 to 176 of the source for an argument with one or two
  aliases, and the quoted help of line 179.
\<close>

definition fish_options :: "argument \<Rightarrow> string list" where
  "fish_options a =
     (case aliases a of
        [s, l] \<Rightarrow> (if s \<noteq> [] then [''-s'', s] else []) @ [''-l'', l]
      | [l] \<Rightarrow> [''-l'', l]
      | _ \<Rightarrow> [])
     @ (if configuration a ''choices'' \<noteq> None
        then [''-xa'', [dquote] @ str_join '' '' (choices a) @ [dquote]]
        else if configuration a ''lazy_choices'' \<noteq> None then [''-x'']
        else [])"

definition fish_help :: "argument \<Rightarrow> string" where
  "fish_help a =
     [squote]
     @ concat (map (\<lambda>c. if c = squote then [backslash, squote] else [c]) (short_help a))
     @ [squote]"

section \<open>The parts of a zsh declaration\<close>

text \<open>
  Names for the pieces that \<open>serialize_argument_to_zsh\<close> puts together, read off its
  body: the metavar it resolves (lines 123 to 135 of the source), the metavar segment
  (lines 137 to 141), the choices segment (lines 143 and 144), and the quoted body
  without the alias. The lemmas \<open>serialize_argument_to_zsh_one\<close> and
  \<open>serialize_argument_to_zsh_many\<close> below show that the serializer returns exactly
  these pieces.
\<close>

definition zsh_metavar :: "argument \<Rightarrow> string option" where
  "zsh_metavar a =
     (if configuration a ''metavar'' \<noteq> None then metavar a
      else if configuration a ''choices'' \<noteq> None
      then (case max_by_len (aliases a) of
              Inl e \<Rightarrow> None
            | Inr longest \<Rightarrow>
                Some (str_upper (str_replace ''-'' ''_'' (str_lstrip ''-'' longest))))
      else None)"

definition zsh_metavar_segment :: "argument \<Rightarrow> string" where
  "zsh_metavar_segment a =
     (case zsh_metavar a of
        None \<Rightarrow> []
      | Some m \<Rightarrow> if m \<noteq> [] then '':'' @ escape_zsh (str_strip '' '' m) @ '':'' else [])"

definition zsh_choices_segment :: "argument \<Rightarrow> string" where
  "zsh_choices_segment a =
     (if configuration a ''choices'' \<noteq> None
      then ''('' @ str_join '' '' (choices a) @ '')'' else [])"

definition zsh_body :: "argument \<Rightarrow> string" where
  "zsh_body a =
     (if is_flag a then [] else ''='') @ ''['' @ short_help a @ '']''
       @ zsh_metavar_segment a @ zsh_choices_segment a"

text \<open>The opening of a declaration: the brace prefix and the quote, or the quote and the one alias.\<close>

definition zsh_opening :: "argument \<Rightarrow> string" where
  "zsh_opening a =
     (if 1 < length (aliases a)
      then ''{'' @ str_join '','' (aliases a) @ ''}'' @ [squote]
      else [squote] @ concat (take 1 (aliases a)))"




section \<open>Example arguments\<close>

definition example_help :: argument where
  "example_help =
     \<lparr>aliases = [''-h'', ''--help''], configuration = Map.empty, is_flag = True,
      is_hidden = False, is_positional = False, short_help = ''Show help'',
      metavar = None, choices = []\<rparr>"

definition example_output :: argument where
  "example_output =
     \<lparr>aliases = [''-o'', ''--output''], configuration = Map.empty, is_flag = False,
      is_hidden = False, is_positional = False,
      short_help = ''Write to '' @ [squote] @ ''file'' @ [squote],
      metavar = None, choices = []\<rparr>"

definition example_output_format :: argument where
  "example_output_format =
     \<lparr>aliases = [''-o'', ''--output-format''],
      configuration = [''choices'' \<mapsto> PyList [''json'', ''xml'']], is_flag = False,
      is_hidden = False, is_positional = False, short_help = ''Output format'',
      metavar = None, choices = [''json'', ''xml'']\<rparr>"

definition example_json :: argument where
  "example_json =
     \<lparr>aliases = [''--json''], configuration = [''metavar'' \<mapsto> PyStr ''FORMAT''],
      is_flag = False, is_hidden = False, is_positional = False,
      short_help = ''Output format'', metavar = Some ''FORMAT'', choices = []\<rparr>"

definition example_pretty :: argument where
  "example_pretty =
     \<lparr>aliases = [''--pretty''],
      configuration = [''metavar'' \<mapsto> PyStr [], ''choices'' \<mapsto> PyList [''all'', ''none'']],
      is_flag = False, is_hidden = False, is_positional = False,
      short_help = ''Output processing'', metavar = Some [],
      choices = [''all'', ''none'']\<rparr>"


definition example_tabs :: argument where
  "example_tabs =
     \<lparr>aliases = [''--proxy''],
      configuration = [''metavar'' \<mapsto> PyStr ([tab] @ ''PROTOCOL:URL'' @ [tab])],
      is_flag = False, is_hidden = False, is_positional = False,
      short_help = ''Proxy'', metavar = Some ([tab] @ ''PROTOCOL:URL'' @ [tab]),
      choices = []\<rparr>"

definition example_request_item :: argument where
  "example_request_item =
     \<lparr>aliases = [], configuration = [''metavar'' \<mapsto> PyStr ''REQUEST_ITEM''],
      is_flag = False, is_hidden = False, is_positional = True,
      short_help = ''Request items'', metavar = Some ''REQUEST_ITEM'', choices = []\<rparr>"

definition example_three :: argument where
  "example_three =
     \<lparr>aliases = [''-v'', ''--verbose'', ''--loud''], configuration = Map.empty,
      is_flag = True, is_hidden = False, is_positional = False,
      short_help = ''Verbose output'', metavar = None, choices = []\<rparr>"

definition example_spec :: parser_spec where
  "example_spec =
     \<lparr>groups = [\<lparr>arguments = [example_request_item]\<rparr>,
                \<lparr>arguments = [example_help, example_output, example_json]\<rparr>]\<rparr>"

section \<open>Facts about the built-ins\<close>

lemma str_replace_char:
  "str_replace [a] new s = concat (map (\<lambda>c. if c = a then new else [c]) s)"
  by (induction s) simp_all





lemma escape_zsh_concat:
  "escape_zsh s = concat (map (\<lambda>c. if c = CHR '':'' then [backslash, CHR '':''] else [c]) s)"
  by (simp add: escape_zsh_def str_replace_char)

lemma escaped_colon_after_backslash:
  "i < length (concat (map (\<lambda>c. if c = CHR '':'' then [backslash, CHR '':''] else [c]) s)) \<Longrightarrow>
   concat (map (\<lambda>c. if c = CHR '':'' then [backslash, CHR '':''] else [c]) s) ! i = CHR '':'' \<Longrightarrow>
   0 < i \<and> concat (map (\<lambda>c. if c = CHR '':'' then [backslash, CHR '':''] else [c]) s) ! (i - 1)
             = backslash"
proof (induction s arbitrary: i)
  case Nil
  then show ?case by simp
next
  case (Cons c cs)
  let ?e = "concat (map (\<lambda>c. if c = CHR '':'' then [backslash, CHR '':''] else [c]) cs)"
  show ?case
  proof (cases "c = CHR '':''")
    case True
    show ?thesis
    proof (cases i)
      case 0
      with Cons.prems True show ?thesis by simp
    next
      case (Suc j)
      show ?thesis
      proof (cases j)
        case 0
        with Suc True show ?thesis by simp
      next
        case (Suc k)
        with \<open>i = Suc j\<close> Cons.prems True have "k < length ?e" "?e ! k = CHR '':''" by simp_all
        from Cons.IH [OF this] have "0 < k" "?e ! (k - 1) = backslash" by simp_all
        with Suc \<open>i = Suc j\<close> True show ?thesis by (cases k) simp_all
      qed
    qed
  next
    case False
    show ?thesis
    proof (cases i)
      case 0
      with Cons.prems False show ?thesis by simp
    next
      case (Suc j)
      with Cons.prems False have "j < length ?e" "?e ! j = CHR '':''" by simp_all
      from Cons.IH [OF this] have "0 < j" "?e ! (j - 1) = backslash" by simp_all
      with Suc False show ?thesis by (cases j) simp_all
    qed
  qed
qed

lemma dropWhile_last:
  "dropWhile P xs \<noteq> [] \<Longrightarrow> last (dropWhile P xs) = last xs"
  by (metis last_appendR takeWhile_dropWhile_id)

lemma str_strip_split:
  "\<exists>pre post. s = pre @ str_strip chars s @ post \<and> set pre \<subseteq> set chars \<and> set post \<subseteq> set chars"
proof -
  let ?P = "\<lambda>c. c \<in> set chars"
  let ?d = "dropWhile ?P s"
  have "s = takeWhile ?P s @ ?d" by simp
  moreover have "rev ?d = takeWhile ?P (rev ?d) @ dropWhile ?P (rev ?d)" by simp
  then have "?d = rev (dropWhile ?P (rev ?d)) @ rev (takeWhile ?P (rev ?d))"
    by (metis rev_append rev_rev_ident)
  ultimately have "s = takeWhile ?P s @ str_strip chars s @ rev (takeWhile ?P (rev ?d))"
    by (simp add: str_strip_def str_lstrip_def)
  moreover have "set (takeWhile ?P s) \<subseteq> set chars"
    by (auto dest: set_takeWhileD)
  moreover have "set (rev (takeWhile ?P (rev ?d))) \<subseteq> set chars"
    by (auto dest: set_takeWhileD)
  ultimately show ?thesis by blast
qed

lemma str_strip_ends:
  assumes "str_strip chars s \<noteq> []"
  shows "hd (str_strip chars s) \<notin> set chars \<and> last (str_strip chars s) \<notin> set chars"
proof -
  let ?P = "\<lambda>c. c \<in> set chars"
  let ?d = "dropWhile ?P s"
  let ?t = "dropWhile ?P (rev ?d)"
  have t: "str_strip chars s = rev ?t" by (simp add: str_strip_def str_lstrip_def)
  with assms have tne: "?t \<noteq> []" by simp
  have dne: "?d \<noteq> []"
  proof
    assume e: "?d = []"
    have "?t = []" unfolding e by simp
    with tne show False by contradiction
  qed
  have "last (rev ?t) = hd ?t" using tne by (simp add: last_rev)
  moreover have "\<not> ?P (hd ?t)" using tne by (rule hd_dropWhile)
  moreover have "hd (rev ?t) = last ?t" using tne by (simp add: hd_rev)
  moreover have "last ?t = last (rev ?d)" using tne by (rule dropWhile_last)
  moreover have "last (rev ?d) = hd ?d" using dne by (simp add: last_rev)
  moreover have "\<not> ?P (hd ?d)" using dne by (rule hd_dropWhile)
  ultimately show ?thesis unfolding t by simp
qed

section \<open>The zsh serializer: what it returns\<close>

lemma serialize_argument_to_zsh_one:
  "aliases a = [x] \<Longrightarrow>
   serialize_argument_to_zsh a = Inr ([squote] @ x @ zsh_body a @ [squote])"
  by (simp add: serialize_argument_to_zsh_def zsh_body_def zsh_metavar_segment_def
      zsh_choices_segment_def zsh_metavar_def Let_def split: option.splits)

lemma serialize_argument_to_zsh_many:
  "1 < length (aliases a) \<Longrightarrow>
   serialize_argument_to_zsh a =
     Inr (''{'' @ str_join '','' (aliases a) @ ''}'' @ [squote] @ zsh_body a @ [squote])"
  by (cases "aliases a")
     (simp_all add: serialize_argument_to_zsh_def zsh_body_def zsh_metavar_segment_def
        zsh_choices_segment_def zsh_metavar_def Let_def split: option.splits)

lemma serialize_argument_to_zsh_empty:
  "aliases a = [] \<Longrightarrow> serialize_argument_to_zsh a = Inl IndexError"
  by (simp add: serialize_argument_to_zsh_def)

lemma serialize_argument_to_zsh_nonempty:
  assumes "aliases a \<noteq> []"
  shows "serialize_argument_to_zsh a = Inr (zsh_opening a @ zsh_body a @ [squote])"
proof (cases "1 < length (aliases a)")
  case True
  then show ?thesis by (simp add: serialize_argument_to_zsh_many zsh_opening_def)
next
  case False
  with assms obtain x where "aliases a = [x]"
    by (cases "aliases a") auto
  then show ?thesis by (simp add: serialize_argument_to_zsh_one zsh_opening_def)
qed


text \<open>
  What \<open>escape_zsh\<close> and the stripping of spaces do: every colon becomes a backslash and
  a colon, so that every colon of the escaped text stands right after a backslash; a
  resolved metavar that is not empty is stripped of the space characters around it,
  escaped and put between two colons behind the help.
\<close>

lemma escape_zsh_colons:
  "escape_zsh s = concat (map (\<lambda>c. if c = CHR '':'' then [backslash, CHR '':''] else [c]) s)
   \<and> escape_zsh '':'' = [backslash, CHR '':'']
   \<and> (\<forall>i < length (escape_zsh s).
        escape_zsh s ! i = CHR '':'' \<longrightarrow> 0 < i \<and> escape_zsh s ! (i - 1) = backslash)
   \<and> (aliases a \<noteq> [] \<longrightarrow> zsh_metavar a = Some m \<longrightarrow> m \<noteq> [] \<longrightarrow>
        serialize_argument_to_zsh a =
          Inr (zsh_opening a @ (if is_flag a then [] else ''='') @ ''['' @ short_help a @ '']''
               @ '':'' @ escape_zsh (str_strip '' '' m) @ '':''
               @ zsh_choices_segment a @ [squote]))
   \<and> (\<exists>pre post. m = pre @ str_strip '' '' m @ post
         \<and> set pre \<subseteq> {CHR '' ''} \<and> set post \<subseteq> {CHR '' ''})
   \<and> (str_strip '' '' m \<noteq> [] \<longrightarrow>
        hd (str_strip '' '' m) \<noteq> CHR '' '' \<and> last (str_strip '' '' m) \<noteq> CHR '' '')"
proof (intro conjI allI impI)
  show "escape_zsh s = concat (map (\<lambda>c. if c = CHR '':'' then [backslash, CHR '':''] else [c]) s)"
    by (rule escape_zsh_concat)
  show "escape_zsh '':'' = [backslash, CHR '':'']"
    by (simp add: escape_zsh_def)
next
  fix i assume "i < length (escape_zsh s)" "escape_zsh s ! i = CHR '':''"
  then show "0 < i" "escape_zsh s ! (i - 1) = backslash"
    using escaped_colon_after_backslash [of i s] unfolding escape_zsh_concat by simp_all
next
  assume "aliases a \<noteq> []" "zsh_metavar a = Some m" "m \<noteq> []"
  then show "serialize_argument_to_zsh a =
          Inr (zsh_opening a @ (if is_flag a then [] else ''='') @ ''['' @ short_help a @ '']''
               @ '':'' @ escape_zsh (str_strip '' '' m) @ '':''
               @ zsh_choices_segment a @ [squote])"
    by (simp add: serialize_argument_to_zsh_nonempty zsh_body_def zsh_metavar_segment_def)
next
  show "\<exists>pre post. m = pre @ str_strip '' '' m @ post
         \<and> set pre \<subseteq> {CHR '' ''} \<and> set post \<subseteq> {CHR '' ''}"
    using str_strip_split [of m "'' ''"] by simp
next
  assume "str_strip '' '' m \<noteq> []"
  from str_strip_ends [OF this]
  show "hd (str_strip '' '' m) \<noteq> CHR '' ''" "last (str_strip '' '' m) \<noteq> CHR '' ''"
    by simp_all
qed

section \<open>Claims about the zsh serializer\<close>

text \<open>
  C10. The zsh serializer needs an alias. For an argument whose \<open>aliases\<close> is empty (a
  positional one) it raises \<^verbatim>\<open>IndexError\<close> at \<^verbatim>\<open>argument.aliases[0]\<close>, whatever the
  configuration holds, so also when choices are present; the maximum of the empty alias
  list, which the derivation of a metavar would take, is an error as well
  (\<^verbatim>\<open>ValueError\<close>), but the read of \<^verbatim>\<open>aliases[0]\<close> comes first. The serializer returns a
  string exactly when the argument has at least one alias.
\<close>

theorem zsh_empty_aliases_fail:
  "(aliases a = [] \<longrightarrow>
      serialize_argument_to_zsh a = Inl IndexError \<and> max_by_len (aliases a) = Inl ValueError)
   \<and> ((\<exists>s. serialize_argument_to_zsh a = Inr s) \<longleftrightarrow> aliases a \<noteq> [])"
proof -
  have "\<exists>s. serialize_argument_to_zsh a = Inr s" if "aliases a \<noteq> []"
  proof (cases "aliases a")
    case Nil with that show ?thesis by simp
  next
    case (Cons x xs)
    show ?thesis
    proof (cases xs)
      case Nil
      with Cons show ?thesis by (simp add: serialize_argument_to_zsh_one)
    next
      case (Cons y ys)
      with \<open>aliases a = x # xs\<close> have "1 < length (aliases a)" by simp
      then show ?thesis by (simp add: serialize_argument_to_zsh_many)
    qed
  qed
  then show ?thesis
    by (auto simp: serialize_argument_to_zsh_empty)
qed

theorem zsh_empty_aliases_fail_witness:
  "aliases example_request_item = [] \<and>
   serialize_argument_to_zsh example_request_item = Inl IndexError \<and>
   max_by_len (aliases example_request_item) = Inl ValueError \<and>
   aliases example_json \<noteq> [] \<and> (\<exists>s. serialize_argument_to_zsh example_json = Inr s)"
proof -
  have e: "aliases example_request_item = []" by (simp add: example_request_item_def)
  have n: "aliases example_json \<noteq> []" by (simp add: example_json_def)
  from zsh_empty_aliases_fail [of example_request_item] e
    zsh_empty_aliases_fail [of example_json] n
  show ?thesis by blast
qed

text \<open>
  C4. An argument with exactly one alias has that alias right after the opening quote
  and no brace prefix. An argument with two or more aliases has the comma-joined aliases
  in braces before the opening quote, and the quoted body is \<open>zsh_body\<close> alone: the
  value marker, the help, the metavar segment and the choices, with no alias in the
  place where the single alias would stand. That body does not depend on the aliases at
  all, unless the metavar is the one derived from the longest alias (choices without the
  key \<^verbatim>\<open>metavar\<close>). The \<^verbatim>\<open>-h\<close>/\<^verbatim>\<open>--help\<close> flag with help
  \<^verbatim>\<open>Show help\<close> is serialized to \<^verbatim>\<open>{-h,--help}'[Show help]'\<close>.
\<close>

theorem zsh_alias_placement:
  "(aliases a = [x] \<longrightarrow>
      serialize_argument_to_zsh a = Inr ([squote] @ x @ zsh_body a @ [squote]))
   \<and> (2 \<le> length (aliases a) \<longrightarrow>
      serialize_argument_to_zsh a =
        Inr (''{'' @ str_join '','' (aliases a) @ ''}'' @ [squote] @ zsh_body a @ [squote]))
   \<and> (configuration a ''metavar'' \<noteq> None \<or> configuration a ''choices'' = None \<longrightarrow>
        zsh_body (a\<lparr>aliases := als\<rparr>) = zsh_body a)
   \<and> serialize_argument_to_zsh example_help =
        Inr (''{-h,--help}'' @ [squote] @ ''[Show help]'' @ [squote])"
proof (intro conjI impI)
  assume "aliases a = [x]"
  then show "serialize_argument_to_zsh a = Inr ([squote] @ x @ zsh_body a @ [squote])"
    by (rule serialize_argument_to_zsh_one)
next
  assume "2 \<le> length (aliases a)"
  then have "1 < length (aliases a)" by simp
  then show "serialize_argument_to_zsh a =
        Inr (''{'' @ str_join '','' (aliases a) @ ''}'' @ [squote] @ zsh_body a @ [squote])"
    by (rule serialize_argument_to_zsh_many)
next
  assume "configuration a ''metavar'' \<noteq> None \<or> configuration a ''choices'' = None"
  then show "zsh_body (a\<lparr>aliases := als\<rparr>) = zsh_body a"
    by (auto simp: zsh_body_def zsh_metavar_segment_def zsh_choices_segment_def zsh_metavar_def)
next
  show "serialize_argument_to_zsh example_help =
        Inr (''{-h,--help}'' @ [squote] @ ''[Show help]'' @ [squote])"
    by (simp add: serialize_argument_to_zsh_def example_help_def)
qed

theorem zsh_alias_placement_witness:
  "aliases example_json = [''--json''] \<and>
   serialize_argument_to_zsh example_json =
     Inr ([squote] @ ''--json=[Output format]:FORMAT:'' @ [squote]) \<and>
   2 \<le> length (aliases example_output_format) \<and>
   serialize_argument_to_zsh example_output_format =
     Inr (''{-o,--output-format}'' @ [squote] @
          ''=[Output format]:OUTPUT_FORMAT:(json xml)'' @ [squote]) \<and>
   configuration example_json ''metavar'' = Some (PyStr ''FORMAT'') \<and>
   zsh_body (example_json\<lparr>aliases := [''-j'', ''--json'']\<rparr>) = ''=[Output format]:FORMAT:''"
proof -
  have one: "aliases example_json = [''--json'']" by (simp add: example_json_def)
  have cm: "configuration example_json ''metavar'' = Some (PyStr ''FORMAT'')"
    by (simp add: example_json_def)
  have two: "2 \<le> length (aliases example_output_format)"
    by (simp add: example_output_format_def)
  have b1: "zsh_body example_json = ''=[Output format]:FORMAT:''"
    by (simp add: zsh_body_def zsh_metavar_segment_def zsh_choices_segment_def zsh_metavar_def
        example_json_def escape_zsh_def str_strip_def str_lstrip_def)
  have b2: "zsh_body example_output_format = ''=[Output format]:OUTPUT_FORMAT:(json xml)''"
    by code_simp
  have a2: "aliases example_output_format = [''-o'', ''--output-format'']"
    by (simp add: example_output_format_def)
  from zsh_alias_placement [of example_json "''--json''"] one b1
  have r1: "serialize_argument_to_zsh example_json =
     Inr ([squote] @ ''--json=[Output format]:FORMAT:'' @ [squote])" by simp
  from zsh_alias_placement [of example_output_format] two b2 a2
  have r2: "serialize_argument_to_zsh example_output_format =
     Inr (''{-o,--output-format}'' @ [squote] @
          ''=[Output format]:OUTPUT_FORMAT:(json xml)'' @ [squote])" by simp
  from zsh_alias_placement [of example_json _ "[''-j'', ''--json'']"] cm b1
  have r3: "zsh_body (example_json\<lparr>aliases := [''-j'', ''--json'']\<rparr>) = ''=[Output format]:FORMAT:''"
    by simp
  from one two r1 r2 cm r3 show ?thesis by blast
qed

text \<open>
  C3. The claim is that the choice list is present only behind a metavar segment. The
  source says so itself (\<^verbatim>\<open>Choices always require a metavar\<close>), yet it appends the
  choices whenever the configuration has the key, also when the metavar it resolved is
  empty and no metavar segment was written. The argument \<^verbatim>\<open>--pretty\<close> with the explicit
  metavar \<^verbatim>\<open>''\<close> and the choices \<^verbatim>\<open>all\<close>, \<^verbatim>\<open>none\<close> is serialized to
  \<^verbatim>\<open>'--pretty=[Output processing](all none)'\<close>.
\<close>

theorem zsh_choices_without_metavar:
  "serialize_argument_to_zsh example_pretty =
     Inr ([squote] @ ''--pretty=[Output processing](all none)'' @ [squote])"
  by (simp add: serialize_argument_to_zsh_def example_pretty_def)



text \<open>
  C6. The claim is that every resolved metavar is stripped of whitespace and then
  escaped. The escaping is as claimed. The stripping is not: the source says
  \<^verbatim>\<open>Strip out any whitespace\<close> and calls \<^verbatim>\<open>strip(' ')\<close>, which takes away space
  characters only. The argument \<^verbatim>\<open>--proxy\<close> whose metavar is \<^verbatim>\<open>PROTOCOL:URL\<close> between two
  tabs is serialized with both tabs inside the metavar segment.
\<close>

theorem zsh_metavar_tabs_kept:
  "serialize_argument_to_zsh example_tabs =
     Inr ([squote] @ ''--proxy=[Proxy]:'' @ [tab] @ ''PROTOCOL'' @ [backslash] @ '':URL''
          @ [tab] @ '':'' @ [squote])"
  by (simp add: serialize_argument_to_zsh_def example_tabs_def escape_zsh_def str_strip_def
      str_lstrip_def)

section \<open>The fish serializer: what it returns\<close>

lemma str_join_append:
  "xs \<noteq> [] \<Longrightarrow> ys \<noteq> [] \<Longrightarrow> str_join sep (xs @ ys) = str_join sep xs @ sep @ str_join sep ys"
proof (induction sep xs rule: str_join.induct)
  case (1 sep)
  then show ?case by simp
next
  case (2 sep x)
  then show ?case by (cases ys) simp_all
next
  case (3 sep x y zs)
  then show ?case by simp
qed

lemma serialize_argument_to_fish_many:
  "2 < length (aliases a) \<Longrightarrow> serialize_argument_to_fish a = Inl ValueError"
proof -
  assume "2 < length (aliases a)"
  then obtain x y z zs where "aliases a = x # y # z # zs"
    by (cases "aliases a" rule: unpack2.cases) auto
  then show ?thesis by (simp add: serialize_argument_to_fish_def)
qed

lemma serialize_argument_to_fish_empty:
  "aliases a = [] \<Longrightarrow> serialize_argument_to_fish a = Inl ValueError"
  by (simp add: serialize_argument_to_fish_def)

lemma serialize_argument_to_fish_tokens:
  assumes "length (aliases a) = 1 \<or> length (aliases a) = 2"
  shows "serialize_argument_to_fish a =
     Inr (str_join [tab] ([''complete'', ''-c'', ''http''] @ fish_options a @ [''-d'', fish_help a]))"
proof -
  from assms consider l where "aliases a = [l]" | s l where "aliases a = [s, l]"
    by (cases "aliases a" rule: unpack2.cases) auto
  then show ?thesis
  proof cases
    case 1
    then show ?thesis
      by (simp add: serialize_argument_to_fish_def fish_options_def fish_help_def
          str_replace_char Let_def)
  next
    case 2
    then show ?thesis
      by (simp add: serialize_argument_to_fish_def fish_options_def fish_help_def
          str_replace_char Let_def)
  qed
qed

lemma serialize_argument_to_fish_Inr:
  assumes "serialize_argument_to_fish a = Inr s"
  shows "length (aliases a) = 1 \<or> length (aliases a) = 2"
proof (rule ccontr)
  assume "\<not> ?thesis"
  then have "length (aliases a) = 0 \<or> 2 < length (aliases a)" by arith
  then have "aliases a = [] \<or> 2 < length (aliases a)" by simp
  then have "serialize_argument_to_fish a = Inl ValueError"
    using serialize_argument_to_fish_empty serialize_argument_to_fish_many by blast
  with assms show False by simp
qed

lemma fish_options_nonempty:
  "length (aliases a) = 1 \<or> length (aliases a) = 2 \<Longrightarrow> fish_options a \<noteq> []"
  by (cases "aliases a" rule: unpack2.cases) (auto simp: fish_options_def)

lemma fish_example_output:
  "serialize_argument_to_fish example_output =
     Inr (str_join [tab]
       [''complete'', ''-c'', ''http'', ''-s'', ''-o'', ''-l'', ''--output'', ''-d'',
        [squote] @ ''Write to '' @ [backslash, squote] @ ''file'' @ [backslash, squote]
          @ [squote]])"
  by (simp add: serialize_argument_to_fish_def example_output_def)

section \<open>The lookup: what it returns\<close>

lemma has_target_targets: "Some name \<in> set (targets a) \<longleftrightarrow> has_target name a"
  by (auto simp: targets_def has_target_def)

lemma find_in_arguments_find:
  "find_in_arguments args name = List.find (has_target name) args"
  by (induction args) (simp_all add: has_target_targets)

lemma find_append:
  "List.find P (xs @ ys) = (case List.find P xs of Some x \<Rightarrow> Some x | None \<Rightarrow> List.find P ys)"
  by (induction xs) simp_all

lemma find_in_groups_find:
  "find_in_groups gs name = List.find (has_target name) (concat (map arguments gs))"
  by (induction gs) (simp_all add: find_in_arguments_find find_append split: option.splits)

lemma find_first_split:
  "List.find P xs = Some a \<longleftrightarrow>
     (\<exists>pre post. xs = pre @ a # post \<and> P a \<and> (\<forall>b\<in>set pre. \<not> P b))"
proof (induction xs)
  case Nil
  then show ?case by simp
next
  case (Cons x xs)
  show ?case
  proof (cases "P x")
    case True
    have "(\<exists>pre post. x # xs = pre @ a # post \<and> P a \<and> (\<forall>b\<in>set pre. \<not> P b)) \<longleftrightarrow> x = a"
    proof
      assume "\<exists>pre post. x # xs = pre @ a # post \<and> P a \<and> (\<forall>b\<in>set pre. \<not> P b)"
      then obtain pre post where s: "x # xs = pre @ a # post" and n: "\<forall>b\<in>set pre. \<not> P b"
        by blast
      show "x = a"
      proof (cases pre)
        case Nil
        with s show ?thesis by simp
      next
        case (Cons p ps)
        with s have "p = x" by simp
        with Cons n True show ?thesis by simp
      qed
    next
      assume "x = a"
      with True have "x # xs = [] @ a # xs \<and> P a \<and> (\<forall>b\<in>set []. \<not> P b)" by simp
      then show "\<exists>pre post. x # xs = pre @ a # post \<and> P a \<and> (\<forall>b\<in>set pre. \<not> P b)"
        by blast
    qed
    with True show ?thesis by simp
  next
    case False
    have "(\<exists>pre post. x # xs = pre @ a # post \<and> P a \<and> (\<forall>b\<in>set pre. \<not> P b)) \<longleftrightarrow>
          (\<exists>pre post. xs = pre @ a # post \<and> P a \<and> (\<forall>b\<in>set pre. \<not> P b))"
    proof
      assume "\<exists>pre post. x # xs = pre @ a # post \<and> P a \<and> (\<forall>b\<in>set pre. \<not> P b)"
      then obtain pre post where s: "x # xs = pre @ a # post" and a: "P a"
        and n: "\<forall>b\<in>set pre. \<not> P b" by blast
      show "\<exists>pre post. xs = pre @ a # post \<and> P a \<and> (\<forall>b\<in>set pre. \<not> P b)"
      proof (cases pre)
        case Nil
        with s a False show ?thesis by simp
      next
        case (Cons p ps)
        with s n a have "xs = ps @ a # post \<and> P a \<and> (\<forall>b\<in>set ps. \<not> P b)" by simp
        then show ?thesis by blast
      qed
    next
      assume "\<exists>pre post. xs = pre @ a # post \<and> P a \<and> (\<forall>b\<in>set pre. \<not> P b)"
      then obtain pre post where "xs = pre @ a # post" "P a" "\<forall>b\<in>set pre. \<not> P b" by blast
      with False have "x # xs = (x # pre) @ a # post \<and> P a \<and> (\<forall>b\<in>set (x # pre). \<not> P b)"
        by simp
      then show "\<exists>pre post. x # xs = pre @ a # post \<and> P a \<and> (\<forall>b\<in>set pre. \<not> P b)"
        by blast
    qed
    with False Cons.IH show ?thesis by simp
  qed
qed

section \<open>Claims about the fish serializer\<close>

text \<open>
  C7. An argument with more than two aliases makes the fish serializer raise: the
  two-name unpacking fails, its \<^verbatim>\<open>ValueError\<close> is caught, and the one-name unpacking in
  the handler fails with a \<^verbatim>\<open>ValueError\<close> that leaves the function. No declaration is
  returned. An argument with three aliases is the witness.
\<close>

theorem fish_three_aliases_fail:
  "2 < length (aliases a) \<longrightarrow> serialize_argument_to_fish a = Inl ValueError"
  by (simp add: serialize_argument_to_fish_many)

theorem fish_three_aliases_fail_witness:
  "2 < length (aliases example_three) \<and>
   serialize_argument_to_fish example_three = Inl ValueError"
proof -
  have "2 < length (aliases example_three)" by (simp add: example_three_def)
  with fish_three_aliases_fail [of example_three] show ?thesis by simp
qed

text \<open>
  C8. Whenever the fish serializer returns a declaration, it is the tab-joined list of
  the tokens \<^verbatim>\<open>complete\<close>, \<^verbatim>\<open>-c\<close>, \<^verbatim>\<open>http\<close>, the options of the argument, \<^verbatim>\<open>-d\<close> and the
  quoted help; as a string it begins with \<^verbatim>\<open>complete\<close>, \<^verbatim>\<open>-c\<close>, \<^verbatim>\<open>http\<close> and ends with
  \<^verbatim>\<open>-d\<close>, a tab and the help between single quotes, in which every single quote of the
  help text is replaced by a backslash and the quote.
\<close>

theorem fish_command_shape:
  "serialize_argument_to_fish a = Inr s \<longrightarrow>
     s = str_join [tab] ([''complete'', ''-c'', ''http''] @ fish_options a @ [''-d'', fish_help a])
     \<and> s = ''complete'' @ [tab] @ ''-c'' @ [tab] @ ''http'' @ [tab]
           @ str_join [tab] (fish_options a) @ [tab] @ ''-d'' @ [tab] @ fish_help a
     \<and> fish_help a =
         [squote]
         @ concat (map (\<lambda>c. if c = squote then [backslash, squote] else [c]) (short_help a))
         @ [squote]"
proof (intro impI conjI)
  assume r: "serialize_argument_to_fish a = Inr s"
  then have len: "length (aliases a) = 1 \<or> length (aliases a) = 2"
    by (rule serialize_argument_to_fish_Inr)
  from serialize_argument_to_fish_tokens [OF len] r
  show tok: "s = str_join [tab] ([''complete'', ''-c'', ''http''] @ fish_options a @ [''-d'', fish_help a])"
    by simp
  have ne: "fish_options a \<noteq> []" using len by (rule fish_options_nonempty)
  have "str_join [tab] ([''complete'', ''-c'', ''http''] @ (fish_options a @ [''-d'', fish_help a]))
      = str_join [tab] [''complete'', ''-c'', ''http''] @ [tab]
          @ str_join [tab] (fish_options a @ [''-d'', fish_help a])"
    using ne by (intro str_join_append) simp_all
  also have "str_join [tab] (fish_options a @ [''-d'', fish_help a])
      = str_join [tab] (fish_options a) @ [tab] @ str_join [tab] [''-d'', fish_help a]"
    using ne by (intro str_join_append) simp_all
  finally show "s = ''complete'' @ [tab] @ ''-c'' @ [tab] @ ''http'' @ [tab]
           @ str_join [tab] (fish_options a) @ [tab] @ ''-d'' @ [tab] @ fish_help a"
    using tok by simp
  show "fish_help a =
         [squote]
         @ concat (map (\<lambda>c. if c = squote then [backslash, squote] else [c]) (short_help a))
         @ [squote]"
    by (simp add: fish_help_def)
qed

theorem fish_command_shape_witness:
  "serialize_argument_to_fish example_output =
     Inr (str_join [tab]
       [''complete'', ''-c'', ''http'', ''-s'', ''-o'', ''-l'', ''--output'', ''-d'',
        [squote] @ ''Write to '' @ [backslash, squote] @ ''file'' @ [backslash, squote]
          @ [squote]]) \<and>
   fish_options example_output = [''-s'', ''-o'', ''-l'', ''--output''] \<and>
   fish_help example_output =
     [squote] @ ''Write to '' @ [backslash, squote] @ ''file'' @ [backslash, squote] @ [squote] \<and>
   str_join [tab]
       [''complete'', ''-c'', ''http'', ''-s'', ''-o'', ''-l'', ''--output'', ''-d'',
        [squote] @ ''Write to '' @ [backslash, squote] @ ''file'' @ [backslash, squote]
          @ [squote]]
     = ''complete'' @ [tab] @ ''-c'' @ [tab] @ ''http'' @ [tab]
           @ str_join [tab] (fish_options example_output) @ [tab] @ ''-d'' @ [tab]
           @ fish_help example_output"
proof -
  note r = fish_example_output
  have o: "fish_options example_output = [''-s'', ''-o'', ''-l'', ''--output'']"
    by (simp add: fish_options_def example_output_def)
  have h: "fish_help example_output =
     [squote] @ ''Write to '' @ [backslash, squote] @ ''file'' @ [backslash, squote] @ [squote]"
    by (simp add: fish_help_def example_output_def)
  from fish_command_shape [of example_output] r o h show ?thesis by blast
qed



section \<open>Claims about the lookup\<close>

text \<open>
  C1, amended: \<open>find_argument_by_target_name\<close> returns the first argument in scan order
  whose targets contain the name (the aliases when there are any, the metavar alone
  otherwise): an argument is returned exactly when it matches and nothing before it
  does. When no argument matches, the function raises \<^verbatim>\<open>ValueError\<close>, and what it
  raises is never a \<^verbatim>\<open>LookupError\<close>.
\<close>

theorem find_argument_first_match:
  "find_argument_by_target_name spec name =
     (case List.find (has_target name) (all_arguments spec) of
        Some a \<Rightarrow> Inr a
      | None \<Rightarrow> Inl ValueError)
   \<and> (find_argument_by_target_name spec name = Inr a \<longleftrightarrow>
        (\<exists>pre post. all_arguments spec = pre @ a # post \<and> has_target name a
           \<and> (\<forall>b\<in>set pre. \<not> has_target name b)))
   \<and> (find_argument_by_target_name spec name = Inl ValueError \<longleftrightarrow>
        (\<forall>b\<in>set (all_arguments spec). \<not> has_target name b))
   \<and> \<not> raises_LookupError (find_argument_by_target_name spec name)"
proof -
  have eq: "find_argument_by_target_name spec name =
     (case List.find (has_target name) (all_arguments spec) of
        Some a \<Rightarrow> Inr a
      | None \<Rightarrow> Inl ValueError)"
    by (simp add: find_argument_by_target_name_def find_in_groups_find all_arguments_def)
  have "find_argument_by_target_name spec name = Inr a \<longleftrightarrow>
        List.find (has_target name) (all_arguments spec) = Some a"
    unfolding eq by (simp split: option.splits)
  then have first: "find_argument_by_target_name spec name = Inr a \<longleftrightarrow>
        (\<exists>pre post. all_arguments spec = pre @ a # post \<and> has_target name a
           \<and> (\<forall>b\<in>set pre. \<not> has_target name b))"
    by (simp only: find_first_split)
  have none: "find_argument_by_target_name spec name = Inl ValueError \<longleftrightarrow>
        (\<forall>b\<in>set (all_arguments spec). \<not> has_target name b)"
  proof (cases "List.find (has_target name) (all_arguments spec)")
    case None
    then have "\<forall>b\<in>set (all_arguments spec). \<not> has_target name b"
      by (simp add: find_None_iff)
    with None show ?thesis unfolding eq by simp
  next
    case (Some c)
    then obtain pre post where "all_arguments spec = pre @ c # post" "has_target name c"
      unfolding find_first_split by blast
    then have "\<exists>b\<in>set (all_arguments spec). has_target name b" by auto
    with Some show ?thesis unfolding eq by simp
  qed
  have "\<not> raises_LookupError (find_argument_by_target_name spec name)"
    unfolding eq by (simp add: raises_LookupError_def split: option.splits)
  with eq first none show ?thesis by blast
qed

theorem find_argument_first_match_witness:
  "all_arguments example_spec = [example_request_item] @ example_help # [example_output, example_json] \<and>
   has_target ''--help'' example_help \<and>
   \<not> has_target ''--help'' example_request_item \<and>
   find_argument_by_target_name example_spec ''--help'' = Inr example_help \<and>
   find_argument_by_target_name example_spec ''REQUEST_ITEM'' = Inr example_request_item \<and>
   \<not> has_target ''--missing'' example_request_item \<and>
   \<not> has_target ''--missing'' example_help \<and>
   \<not> has_target ''--missing'' example_output \<and>
   \<not> has_target ''--missing'' example_json \<and>
   find_argument_by_target_name example_spec ''--missing'' = Inl ValueError"
proof -
  have all: "all_arguments example_spec =
      [example_request_item] @ example_help # [example_output, example_json]"
    by (simp add: all_arguments_def example_spec_def)
  have h: "has_target ''--help'' example_help"
    by (simp add: has_target_def example_help_def)
  have n: "\<forall>b\<in>set [example_request_item]. \<not> has_target ''--help'' b"
    by (simp add: has_target_def example_request_item_def)
  have all0: "all_arguments example_spec = [] @ example_request_item # [example_help, example_output, example_json]"
    by (simp add: all_arguments_def example_spec_def)
  have h0: "has_target ''REQUEST_ITEM'' example_request_item"
    by (simp add: has_target_def example_request_item_def)
  have m: "\<forall>b\<in>set (all_arguments example_spec). \<not> has_target ''--missing'' b"
    by (simp add: all has_target_def example_request_item_def example_help_def
        example_output_def example_json_def)
  from find_argument_first_match [of example_spec "''--help''" example_help] all h n
  have r1: "find_argument_by_target_name example_spec ''--help'' = Inr example_help" by blast
  from find_argument_first_match [of example_spec "''REQUEST_ITEM''" example_request_item] all0 h0
  have r2: "find_argument_by_target_name example_spec ''REQUEST_ITEM'' = Inr example_request_item"
    by (metis empty_iff list.set(1))
  from find_argument_first_match [of example_spec "''--missing''"] m
  have r3: "find_argument_by_target_name example_spec ''--missing'' = Inl ValueError" by blast
  from n have n': "\<not> has_target ''--help'' example_request_item" by simp
  from m have m': "\<not> has_target ''--missing'' example_request_item"
    "\<not> has_target ''--missing'' example_help"
    "\<not> has_target ''--missing'' example_output"
    "\<not> has_target ''--missing'' example_json"
    by (simp_all add: all)
  from all h n' r1 r2 m' r3 show ?thesis by blast
qed

text \<open>
  C1, as claimed: a name that no argument of the example specification has among its
  targets should raise a \<^verbatim>\<open>LookupError\<close>. The function raises \<^verbatim>\<open>ValueError\<close>, which is
  not a \<^verbatim>\<open>LookupError\<close>.
\<close>

theorem find_argument_no_LookupError:
  "find_argument_by_target_name example_spec ''--missing'' = Inl ValueError \<and>
   \<not> raises_LookupError (find_argument_by_target_name example_spec ''--missing'')"
  by (simp add: find_argument_by_target_name_def example_spec_def targets_def
      example_request_item_def example_help_def example_output_def example_json_def
      raises_LookupError_def)

end
